theory Spec2Isabelle
  imports Complex_Main
begin

section \<open>SRT PnL Stress Analysis: the cash-flow simulation of both script versions\<close>

text \<open>
  The repository holds two scripts, each defining \<^verbatim>\<open>srt_stress_analysis\<close>: version 2.0
  (quarterly periods, a latched sequential flag, compounding of received cash) and
  version 1.0 (yearly periods, regime re-derived each year, discounting).
  Both are embedded here, version 2.0 without a prefix and version 1.0 with the prefix
  \<open>v1_\<close>.

  Numbers. The scripts compute with Python numbers (\<^verbatim>\<open>int\<close> and \<^verbatim>\<open>float\<close>); amounts
  and rates are modelled as \<^typ>\<open>real\<close>, that is with exact arithmetic and no rounding,
  and years, quarters and list positions as \<^typ>\<open>int\<close>.
  What floating point adds to the arithmetic is outside the model: rounding, a product
  that underflows to zero, and the \<^verbatim>\<open>OverflowError\<close> of an integer too large to be
  converted to a float. The lemmas below that say a run returns are facts of the exact
  arithmetic; about the scripts they are used at concrete inputs only.
  Exceptions are values: a run returns \<open>Inl e\<close> when the script raises \<open>e\<close> and
  \<open>Inr rows\<close> when it reaches its \<^verbatim>\<open>return\<close>.
  The plot drawn before the return, and the dictionary \<^verbatim>\<open>pnl_over_time\<close> that only
  feeds it, do not influence the returned rows and are left out.
\<close>

subsection \<open>Python primitives\<close>

datatype py_error = IndexError | ZeroDivisionError

text \<open>\<^verbatim>\<open>xs[i]\<close> on a list: a negative position counts from the end, a position outside the
  list raises.\<close>

definition py_getitem :: "'a list \<Rightarrow> int \<Rightarrow> py_error + 'a" where
  "py_getitem xs i =
     (if 0 \<le> i \<and> i < int (length xs) then Inr (xs ! nat i)
      else if i < 0 \<and> 0 \<le> int (length xs) + i then Inr (xs ! nat (int (length xs) + i))
      else Inl IndexError)"

text \<open>\<^verbatim>\<open>a / b\<close> on Python numbers raises on a zero divisor, for integers and floats alike.\<close>

definition py_truediv :: "real \<Rightarrow> real \<Rightarrow> py_error + real" where
  "py_truediv a b = (if b = 0 then Inl ZeroDivisionError else Inr (a / b))"

subsection \<open>Inputs, loop state and emitted rows (version 2.0)\<close>

text \<open>The nine arguments of \<^verbatim>\<open>srt_stress_analysis\<close>, in the order of its signature.\<close>

record params =
  tranche_size :: real
  notional_amount :: real
  coupon_rate :: real
  annual_loss_rate :: real
  stress_scenarios :: "real list"
  trigger_timings :: "int list"
  cln_price :: real
  risk_free_rates :: "real list"
  amortisation_rate :: real

text \<open>The constants set at the top of the function body.\<close>

definition maturity :: int where
  "maturity = 8"

definition replenishment_period :: int where
  "replenishment_period = 3"

definition quarters_per_year :: int where
  "quarters_per_year = 4"

definition total_quarters :: int where
  "total_quarters = maturity * quarters_per_year"

text \<open>The variables a scenario carries from one quarter to the next.\<close>

record sim_state =
  remaining_notional :: real
  tranche_exposure :: real
  pnl :: real
  discounted_pnl :: real
  compounded_cashflows :: real
  sequential_mode :: bool

text \<open>
  One appended dictionary of \<^verbatim>\<open>results\<close>. \<open>Scenario\<close> holds the number \<open>i + 1\<close> of the label
  \<^verbatim>\<open>f"Stress {i+1}"\<close>. The last two fields are not columns of the data frame: they are the
  loop body's local variables \<^verbatim>\<open>principal_payment\<close> and \<^verbatim>\<open>quarterly_coupon\<close> of that
  quarter, kept so that properties of them can be stated on a run.
\<close>

record row =
  Scenario :: int
  Year :: int
  Quarter :: int
  Trigger_Time :: int
  Stress_Multiplier :: real
  Losses :: real
  Remaining_Notional :: real
  Tranche_Exposure :: real
  Quarterly_Cashflow :: real
  Amortisation_Type :: string
  PnL :: real
  Discounted_PnL :: real
  Principal_Payment :: real
  Quarterly_Coupon :: real

text \<open>The assignments at the head of the scenario loop.\<close>

definition init_state :: "params \<Rightarrow> sim_state" where
  "init_state P =
     \<lparr> remaining_notional = notional_amount P,
       tranche_exposure = tranche_size P,
       pnl = - cln_price P,
       discounted_pnl = - cln_price P,
       compounded_cashflows = 0,
       sequential_mode = False \<rparr>"

subsection \<open>One quarter (version 2.0)\<close>

text \<open>
  The pro-rata branch: the share \<^verbatim>\<open>tranche_exposure / remaining_notional\<close> is a Python
  division and raises when the remaining notional is zero.
\<close>

definition pro_rata_principal :: "params \<Rightarrow> sim_state \<Rightarrow> py_error + real" where
  "pro_rata_principal P s =
     (case py_truediv (tranche_exposure s) (remaining_notional s) of
        Inl e \<Rightarrow> Inl e
      | Inr share \<Rightarrow>
          Inr (share * (remaining_notional s * amortisation_rate P / real_of_int quarters_per_year)))"

text \<open>
  The \<^verbatim>\<open>if year <= replenishment_period ... else ...\<close> statement of the loop body. It returns
  the state after the branch together with \<^verbatim>\<open>amortisation_type\<close>, \<^verbatim>\<open>principal_payment\<close>,
  \<^verbatim>\<open>quarterly_coupon\<close> and \<^verbatim>\<open>quarterly_cashflow\<close>.
\<close>

definition regime_branch ::
  "params \<Rightarrow> int \<Rightarrow> int \<Rightarrow> real \<Rightarrow> sim_state \<Rightarrow>
     py_error + (sim_state \<times> string \<times> real \<times> real \<times> real)" where
  "regime_branch P trigger_time year annual_losses s =
     (if year \<le> replenishment_period then
        (let quarterly_coupon = (tranche_exposure s * coupon_rate P) / real_of_int quarters_per_year
         in Inr (s, ''Replenishment'', 0, quarterly_coupon, quarterly_coupon))
      else
        (let s1 = (if year = trigger_time then s\<lparr>sequential_mode := True\<rparr> else s);
             amortisation_type = (if sequential_mode s1 then ''Sequential'' else ''Pro-rata'')
         in if amortisation_type = ''Pro-rata'' then
              (case pro_rata_principal P s1 of
                 Inl e \<Rightarrow> Inl e
               | Inr principal_payment \<Rightarrow>
                   (let s2 = s1\<lparr>tranche_exposure := tranche_exposure s1 - principal_payment\<rparr>;
                        s3 = s2\<lparr>remaining_notional :=
                                  remaining_notional s2
                                    * (1 - amortisation_rate P / real_of_int quarters_per_year)\<rparr>;
                        quarterly_coupon =
                          (tranche_exposure s3 * coupon_rate P) / real_of_int quarters_per_year
                    in Inr (s3, amortisation_type, principal_payment, quarterly_coupon,
                            quarterly_coupon + principal_payment)))
            else
              (let s2 = s1\<lparr>tranche_exposure := tranche_exposure s1 - annual_losses\<rparr>;
                   s3 = s2\<lparr>remaining_notional :=
                             remaining_notional s2
                               * (1 - amortisation_rate P / real_of_int quarters_per_year)\<rparr>;
                   quarterly_coupon =
                     (tranche_exposure s3 * coupon_rate P) / real_of_int quarters_per_year
               in Inr (s3, amortisation_type, 0, quarterly_coupon, quarterly_coupon + 0))))"

text \<open>
  The whole body of the quarter loop for scenario \<open>i\<close> with multiplier \<open>stress\<close>: losses,
  the regime branch, the loss applied to the exposure, the running PnL, the compounding at
  the risk-free rate of the year (the last rate of the list once the year is past its end),
  and the appended row.
\<close>

definition period ::
  "params \<Rightarrow> int \<Rightarrow> real \<Rightarrow> int \<Rightarrow> int \<times> int \<Rightarrow> sim_state \<Rightarrow> py_error + (sim_state \<times> row)" where
  "period P i stress trigger_time yq s =
     (let year = fst yq; quarter = snd yq;
          annual_losses =
            (remaining_notional s * annual_loss_rate P * stress) / real_of_int quarters_per_year
      in case regime_branch P trigger_time year annual_losses s of
           Inl e \<Rightarrow> Inl e
         | Inr (s3, amortisation_type, principal_payment, quarterly_coupon, quarterly_cashflow) \<Rightarrow>
             (let s4 = s3\<lparr>tranche_exposure := tranche_exposure s3 - annual_losses\<rparr>;
                  s5 = s4\<lparr>pnl := pnl s4 + quarterly_cashflow\<rparr>
              in case py_getitem (risk_free_rates P)
                        (min (year - 1) (int (length (risk_free_rates P)) - 1)) of
                   Inl e \<Rightarrow> Inl e
                 | Inr rate \<Rightarrow>
                     (let risk_free_rate = rate / real_of_int quarters_per_year;
                          s6 = s5\<lparr>compounded_cashflows :=
                                    (compounded_cashflows s5 + quarterly_cashflow)
                                      * (1 + risk_free_rate)\<rparr>;
                          s7 = s6\<lparr>discounted_pnl := compounded_cashflows s6 - cln_price P\<rparr>
                      in Inr (s7,
                           \<lparr> Scenario = i + 1,
                             Year = year,
                             Quarter = quarter,
                             Trigger_Time = trigger_time,
                             Stress_Multiplier = stress,
                             Losses = annual_losses,
                             Remaining_Notional = remaining_notional s7,
                             Tranche_Exposure = tranche_exposure s7,
                             Quarterly_Cashflow = quarterly_cashflow,
                             Amortisation_Type = amortisation_type,
                             PnL = pnl s7,
                             Discounted_PnL = discounted_pnl s7,
                             Principal_Payment = principal_payment,
                             Quarterly_Coupon = quarterly_coupon \<rparr>))))"

subsection \<open>The loops (version 2.0)\<close>

text \<open>
  The nested loops \<^verbatim>\<open>for year in range(1, maturity + 1)\<close> and
  \<^verbatim>\<open>for quarter in range(1, quarters_per_year + 1)\<close> run the body once per pair, years
  outermost; nothing else happens between two quarters.
\<close>

definition periods :: "(int \<times> int) list" where
  "periods = concat (map (\<lambda>year. map (\<lambda>quarter. (year, quarter)) [1..quarters_per_year])
                         [1..maturity])"

fun run_periods ::
  "params \<Rightarrow> int \<Rightarrow> real \<Rightarrow> int \<Rightarrow> (int \<times> int) list \<Rightarrow> sim_state \<Rightarrow>
     py_error + (sim_state \<times> row list)" where
  "run_periods P i stress trigger_time [] s = Inr (s, [])"
| "run_periods P i stress trigger_time (yq # rest) s =
     (case period P i stress trigger_time yq s of
        Inl e \<Rightarrow> Inl e
      | Inr (s', r) \<Rightarrow>
          (case run_periods P i stress trigger_time rest s' of
             Inl e \<Rightarrow> Inl e
           | Inr (s'', rs) \<Rightarrow> Inr (s'', r # rs)))"

text \<open>One pass of the scenario loop: the rows scenario \<open>i\<close> appends.\<close>

definition scenario :: "params \<Rightarrow> int \<Rightarrow> real \<Rightarrow> py_error + row list" where
  "scenario P i stress =
     (case py_getitem (trigger_timings P) i of
        Inl e \<Rightarrow> Inl e
      | Inr trigger_time \<Rightarrow>
          (case run_periods P i stress trigger_time periods (init_state P) of
             Inl e \<Rightarrow> Inl e
           | Inr (s, rs) \<Rightarrow> Inr rs))"

text \<open>\<^verbatim>\<open>for i, stress in enumerate(stress_scenarios)\<close>, from position \<open>i\<close> on.\<close>

fun scenario_loop :: "params \<Rightarrow> int \<Rightarrow> real list \<Rightarrow> py_error + row list" where
  "scenario_loop P i [] = Inr []"
| "scenario_loop P i (stress # rest) =
     (case scenario P i stress of
        Inl e \<Rightarrow> Inl e
      | Inr rs \<Rightarrow>
          (case scenario_loop P (i + 1) rest of
             Inl e \<Rightarrow> Inl e
           | Inr rs' \<Rightarrow> Inr (rs @ rs')))"

definition srt_stress_analysis :: "params \<Rightarrow> py_error + row list" where
  "srt_stress_analysis P = scenario_loop P 0 (stress_scenarios P)"

text \<open>The inputs of the script's example usage.\<close>

definition example_usage :: params where
  "example_usage =
     \<lparr> tranche_size = 50000000,
       notional_amount = 500000000,
       coupon_rate = 11 / 100,
       annual_loss_rate = 6 / 10000,
       stress_scenarios = [1, 3 / 2, 2, 5 / 2],
       trigger_timings = [4, 5, 6, 7],
       cln_price = 45000000,
       risk_free_rates = replicate 8 (1 / 100),
       amortisation_rate = 33 / 100 \<rparr>"

text \<open>
  Two further inputs. \<open>zero_notional_usage\<close> is the example with an empty reference
  portfolio and one scenario whose trigger year is 5, so that year 4 amortises pro rata.
  \<open>unvalidated_usage\<close> is the example with one scenario whose multiplier is negative and
  whose trigger year lies past the maturity.
\<close>

definition zero_notional_usage :: params where
  "zero_notional_usage =
     example_usage\<lparr>notional_amount := 0, stress_scenarios := [1], trigger_timings := [5]\<rparr>"

definition unvalidated_usage :: params where
  "unvalidated_usage = example_usage\<lparr>stress_scenarios := [- 1], trigger_timings := [9]\<rparr>"

text \<open>\<open>early_trigger_usage\<close> is the example with one scenario whose trigger year, 2, falls
  inside the replenishment period.\<close>

definition early_trigger_usage :: params where
  "early_trigger_usage = example_usage\<lparr>stress_scenarios := [1], trigger_timings := [2]\<rparr>"

subsection \<open>Version 1.0\<close>

text \<open>
  Version 1.0 takes the same nine arguments and sets the same \<open>maturity\<close> and
  \<open>replenishment_period\<close>; its periods are years. Its discounted PnL divides by a NumPy
  product, which yields a non-finite float instead of raising when the product is zero:
  \<open>None\<close> stands for such a value, which no later addition makes finite again.
\<close>

record v1_state =
  v1_remaining_notional :: real
  v1_tranche_exposure :: real
  v1_pnl :: real
  v1_discounted_pnl :: "real option"

record v1_row =
  v1_Scenario :: int
  v1_Year :: int
  v1_Trigger_Time :: int
  v1_Stress_Multiplier :: real
  v1_Losses :: real
  v1_Remaining_Notional :: real
  v1_Tranche_Exposure :: real
  v1_Amortisation_Type :: string
  v1_Annual_Cashflow :: real
  v1_PnL :: real
  v1_Discounted_PnL :: "real option"

definition v1_init_state :: "params \<Rightarrow> v1_state" where
  "v1_init_state P =
     \<lparr> v1_remaining_notional = notional_amount P,
       v1_tranche_exposure = tranche_size P,
       v1_pnl = - cln_price P,
       v1_discounted_pnl = Some (- cln_price P) \<rparr>"

text \<open>The list \<^verbatim>\<open>[(1 + risk_free_rates[y-1]) for y in range(1, year + 1)]\<close>.\<close>

fun v1_growth_factors :: "real list \<Rightarrow> int list \<Rightarrow> py_error + real list" where
  "v1_growth_factors rates [] = Inr []"
| "v1_growth_factors rates (y # ys) =
     (case py_getitem rates (y - 1) of
        Inl e \<Rightarrow> Inl e
      | Inr rate \<Rightarrow>
          (case v1_growth_factors rates ys of
             Inl e \<Rightarrow> Inl e
           | Inr fs \<Rightarrow> Inr ((1 + rate) # fs)))"

text \<open>
  The body of the year loop. \<^verbatim>\<open>amortisation_type\<close> is assigned afresh in every year past
  the replenishment period, from \<^verbatim>\<open>year == trigger_time\<close> alone.
\<close>

definition v1_year ::
  "params \<Rightarrow> int \<Rightarrow> real \<Rightarrow> int \<Rightarrow> int \<Rightarrow> v1_state \<Rightarrow> py_error + (v1_state \<times> v1_row)" where
  "v1_year P i stress trigger_time year s =
     (let annual_losses = v1_remaining_notional s * annual_loss_rate P * stress;
          amortisation_type = (if year = trigger_time then ''Sequential'' else ''Pro-rata'');
          s1 = (if year > replenishment_period then
                  (if amortisation_type = ''Pro-rata'' then
                     s\<lparr>v1_remaining_notional :=
                         v1_remaining_notional s * (1 - amortisation_rate P)\<rparr>
                   else
                     s\<lparr>v1_tranche_exposure := v1_tranche_exposure s - annual_losses,
                       v1_remaining_notional :=
                         v1_remaining_notional s * (1 - amortisation_rate P)\<rparr>)
                else s);
          s2 = s1\<lparr>v1_tranche_exposure := v1_tranche_exposure s1 - annual_losses\<rparr>;
          annual_cashflow = v1_tranche_exposure s2 * coupon_rate P;
          s3 = s2\<lparr>v1_pnl := v1_pnl s2 + annual_cashflow\<rparr>
      in case v1_growth_factors (risk_free_rates P) [1..year] of
           Inl e \<Rightarrow> Inl e
         | Inr fs \<Rightarrow>
             (let discount_factor = prod_list fs;
                  s4 = s3\<lparr>v1_discounted_pnl :=
                            (case v1_discounted_pnl s3 of
                               None \<Rightarrow> None
                             | Some d \<Rightarrow>
                                 if discount_factor = 0 then None
                                 else Some (d + annual_cashflow / discount_factor))\<rparr>
              in Inr (s4,
                   \<lparr> v1_Scenario = i + 1,
                     v1_Year = year,
                     v1_Trigger_Time = trigger_time,
                     v1_Stress_Multiplier = stress,
                     v1_Losses = annual_losses,
                     v1_Remaining_Notional = v1_remaining_notional s4,
                     v1_Tranche_Exposure = v1_tranche_exposure s4,
                     v1_Amortisation_Type =
                       (if year > replenishment_period then amortisation_type
                        else ''Replenishment''),
                     v1_Annual_Cashflow = annual_cashflow,
                     v1_PnL = v1_pnl s4,
                     v1_Discounted_PnL = v1_discounted_pnl s4 \<rparr>)))"

fun v1_run_years ::
  "params \<Rightarrow> int \<Rightarrow> real \<Rightarrow> int \<Rightarrow> int list \<Rightarrow> v1_state \<Rightarrow> py_error + (v1_state \<times> v1_row list)" where
  "v1_run_years P i stress trigger_time [] s = Inr (s, [])"
| "v1_run_years P i stress trigger_time (year # rest) s =
     (case v1_year P i stress trigger_time year s of
        Inl e \<Rightarrow> Inl e
      | Inr (s', r) \<Rightarrow>
          (case v1_run_years P i stress trigger_time rest s' of
             Inl e \<Rightarrow> Inl e
           | Inr (s'', rs) \<Rightarrow> Inr (s'', r # rs)))"

definition v1_scenario :: "params \<Rightarrow> int \<Rightarrow> real \<Rightarrow> py_error + v1_row list" where
  "v1_scenario P i stress =
     (case py_getitem (trigger_timings P) i of
        Inl e \<Rightarrow> Inl e
      | Inr trigger_time \<Rightarrow>
          (case v1_run_years P i stress trigger_time [1..maturity] (v1_init_state P) of
             Inl e \<Rightarrow> Inl e
           | Inr (s, rs) \<Rightarrow> Inr rs))"

fun v1_scenario_loop :: "params \<Rightarrow> int \<Rightarrow> real list \<Rightarrow> py_error + v1_row list" where
  "v1_scenario_loop P i [] = Inr []"
| "v1_scenario_loop P i (stress # rest) =
     (case v1_scenario P i stress of
        Inl e \<Rightarrow> Inl e
      | Inr rs \<Rightarrow>
          (case v1_scenario_loop P (i + 1) rest of
             Inl e \<Rightarrow> Inl e
           | Inr rs' \<Rightarrow> Inr (rs @ rs')))"

definition v1_srt_stress_analysis :: "params \<Rightarrow> py_error + v1_row list" where
  "v1_srt_stress_analysis P = v1_scenario_loop P 0 (stress_scenarios P)"

text \<open>The inputs of version 1.0's example usage.\<close>

definition v1_example_usage :: params where
  "v1_example_usage =
     \<lparr> tranche_size = 50000000,
       notional_amount = 500000000,
       coupon_rate = 11 / 100,
       annual_loss_rate = 4 / 10000,
       stress_scenarios = [1, 3 / 2, 2, 5 / 2],
       trigger_timings = [4, 5, 6, 7],
       cln_price = 35000000,
       risk_free_rates = replicate 8 (1 / 100),
       amortisation_rate = 33 / 100 \<rparr>"

section \<open>Properties\<close>

subsection \<open>The period list\<close>

lemma periods_eq:
  "periods =
     [(1, 1), (1, 2), (1, 3), (1, 4), (2, 1), (2, 2), (2, 3), (2, 4),
      (3, 1), (3, 2), (3, 3), (3, 4), (4, 1), (4, 2), (4, 3), (4, 4),
      (5, 1), (5, 2), (5, 3), (5, 4), (6, 1), (6, 2), (6, 3), (6, 4),
      (7, 1), (7, 2), (7, 3), (7, 4), (8, 1), (8, 2), (8, 3), (8, 4)]"
  by code_simp

lemma periods_length: "length periods = 32"
  by (simp add: periods_eq)

subsection \<open>One quarter\<close>

lemmas period_unfold =
  period_def regime_branch_def pro_rata_principal_def py_truediv_def Let_def

lemma period_row_fields:
  assumes "period P i stress tt yq s = Inr (s', r)"
  shows "Scenario r = i + 1 \<and> Year r = fst yq \<and> Quarter r = snd yq \<and> Trigger_Time r = tt
    \<and> Stress_Multiplier r = stress
    \<and> Losses r = remaining_notional s * annual_loss_rate P * stress / real_of_int quarters_per_year
    \<and> Remaining_Notional r = remaining_notional s' \<and> Tranche_Exposure r = tranche_exposure s'
    \<and> PnL r = pnl s' \<and> Discounted_PnL r = discounted_pnl s'
    \<and> Quarterly_Cashflow r = Quarterly_Coupon r + Principal_Payment r"
  using assms unfolding period_unfold
  by (auto split: sum.splits if_splits prod.splits)

lemma period_regime:
  assumes "period P i stress tt yq s = Inr (s', r)"
  shows "Amortisation_Type r =
           (if fst yq \<le> replenishment_period then ''Replenishment''
            else if sequential_mode s \<or> fst yq = tt then ''Sequential'' else ''Pro-rata'')
    \<and> sequential_mode s' =
           (sequential_mode s \<or> (replenishment_period < fst yq \<and> fst yq = tt))"
  using assms unfolding period_unfold
  by (auto split: sum.splits if_splits prod.splits)

lemma period_notional:
  assumes "period P i stress tt yq s = Inr (s', r)"
  shows "remaining_notional s' =
           (if fst yq \<le> replenishment_period then remaining_notional s
            else remaining_notional s * (1 - amortisation_rate P / real_of_int quarters_per_year))"
  using assms unfolding period_unfold
  by (auto split: sum.splits if_splits prod.splits)

lemma period_exposure:
  assumes "period P i stress tt yq s = Inr (s', r)"
  shows "Principal_Payment r =
           (if fst yq \<le> replenishment_period \<or> sequential_mode s \<or> fst yq = tt then 0
            else tranche_exposure s / remaining_notional s
                   * (remaining_notional s * amortisation_rate P / real_of_int quarters_per_year))
    \<and> tranche_exposure s' =
           (if fst yq \<le> replenishment_period then tranche_exposure s - Losses r
            else if sequential_mode s \<or> fst yq = tt then tranche_exposure s - Losses r - Losses r
            else tranche_exposure s - Principal_Payment r - Losses r)
    \<and> (fst yq \<le> replenishment_period \<or> sequential_mode s \<or> fst yq = tt \<or> remaining_notional s \<noteq> 0)"
  using assms unfolding period_unfold
  by (auto split: sum.splits if_splits prod.splits)

lemma period_coupon:
  assumes "period P i stress tt yq s = Inr (s', r)"
  shows "Quarterly_Coupon r =
           ((tranche_exposure s' + Losses r) * coupon_rate P) / real_of_int quarters_per_year"
  using assms unfolding period_unfold
  by (auto split: sum.splits if_splits prod.splits)

lemma getitem_rate:
  assumes "rates \<noteq> []" "1 \<le> year"
  shows "py_getitem rates (min (year - 1) (int (length rates) - 1)) =
           Inr (rates ! nat (min (year - 1) (int (length rates) - 1)))"
  using assms by (auto simp: py_getitem_def min_def)

lemma getitem_empty: "py_getitem [] j = Inl IndexError"
  by (simp add: py_getitem_def)

lemma period_compound:
  assumes "period P i stress tt yq s = Inr (s', r)" "1 \<le> fst yq"
  shows "risk_free_rates P \<noteq> []
    \<and> compounded_cashflows s' =
         (compounded_cashflows s + Quarterly_Cashflow r)
           * (1 + risk_free_rates P ! nat (min (fst yq - 1) (int (length (risk_free_rates P)) - 1))
                    / real_of_int quarters_per_year)
    \<and> discounted_pnl s' = compounded_cashflows s' - cln_price P"
proof (cases "risk_free_rates P = []")
  case True
  with assms show ?thesis
    unfolding period_unfold
    by (auto simp: getitem_empty split: sum.splits if_splits prod.splits)
next
  case False
  with assms show ?thesis
    unfolding period_unfold
    by (auto simp: getitem_rate split: sum.splits if_splits prod.splits)
qed

lemma period_succeeds:
  assumes "risk_free_rates P \<noteq> []" "1 \<le> fst yq"
    and "fst yq \<le> replenishment_period \<or> sequential_mode s \<or> fst yq = tt \<or> remaining_notional s \<noteq> 0"
  shows "\<exists>s' r. period P i stress tt yq s = Inr (s', r)"
  using assms unfolding period_unfold
  by (auto simp: getitem_rate split: sum.splits if_splits prod.splits)

lemma period_zero_division:
  assumes "replenishment_period < fst yq" "fst yq \<noteq> tt" "\<not> sequential_mode s"
    "remaining_notional s = 0"
  shows "period P i stress tt yq s = Inl ZeroDivisionError"
  using assms unfolding period_unfold
  by (auto split: sum.splits if_splits prod.splits)

lemma period_index_error:
  assumes "risk_free_rates P = []" "1 \<le> fst yq" "fst yq \<le> replenishment_period"
  shows "period P i stress tt yq s = Inl IndexError"
  using assms unfolding period_unfold
  by (auto simp: getitem_empty split: sum.splits if_splits prod.splits)

subsection \<open>The quarters of a scenario\<close>

lemma q4: "real_of_int quarters_per_year = 4"
  by (simp add: quarters_per_year_def)

lemma run_periods_length:
  "run_periods P i stress tt ps s = Inr (s', rows) \<Longrightarrow> length rows = length ps"
  by (induction ps arbitrary: s rows) (auto split: sum.splits prod.splits)

lemma run_periods_append:
  "run_periods P i stress tt (ps @ qs) s =
     (case run_periods P i stress tt ps s of
        Inl e \<Rightarrow> Inl e
      | Inr (s1, rs) \<Rightarrow>
          (case run_periods P i stress tt qs s1 of
             Inl e \<Rightarrow> Inl e
           | Inr (s2, rs') \<Rightarrow> Inr (s2, rs @ rs')))"
  by (induction ps arbitrary: s) (auto split: sum.splits prod.splits)

lemma run_periods_Cons_Inr:
  assumes "run_periods P i stress tt (yq # ps) s = Inr (s', rows)"
  obtains s1 r rs where "period P i stress tt yq s = Inr (s1, r)"
    and "run_periods P i stress tt ps s1 = Inr (s', rs)" and "rows = r # rs"
  using assms by (auto split: sum.splits prod.splits)

lemma run_periods_split:
  assumes "run_periods P i stress tt ps s = Inr (s', rows)" and "n < length ps"
  shows "\<exists>sa sb. run_periods P i stress tt (take n ps) s = Inr (sa, take n rows)
           \<and> period P i stress tt (ps ! n) sa = Inr (sb, rows ! n)
           \<and> run_periods P i stress tt (drop (Suc n) ps) sb = Inr (s', drop (Suc n) rows)"
  using assms
proof (induction ps arbitrary: s rows n)
  case Nil
  then show ?case by simp
next
  case (Cons yq ps)
  from Cons.prems(1) obtain s1 r rs where
    step: "period P i stress tt yq s = Inr (s1, r)"
    and rest: "run_periods P i stress tt ps s1 = Inr (s', rs)"
    and rows: "rows = r # rs"
    by (rule run_periods_Cons_Inr)
  show ?case
  proof (cases n)
    case 0
    with step rest rows show ?thesis by simp
  next
    case (Suc m)
    with Cons.prems(2) have "m < length ps" by simp
    from Cons.IH [OF rest this] obtain sa sb where
      "run_periods P i stress tt (take m ps) s1 = Inr (sa, take m rs)"
      "period P i stress tt (ps ! m) sa = Inr (sb, rs ! m)"
      "run_periods P i stress tt (drop (Suc m) ps) sb = Inr (s', drop (Suc m) rs)"
      by blast
    with step rows Suc show ?thesis by simp
  qed
qed

lemma run_periods_consecutive:
  assumes "run_periods P i stress tt ps s = Inr (s', rows)" and "Suc n < length ps"
  shows "\<exists>sa sb sc. period P i stress tt (ps ! n) sa = Inr (sb, rows ! n)
           \<and> period P i stress tt (ps ! Suc n) sb = Inr (sc, rows ! Suc n)"
proof -
  from assms(2) have n: "n < length ps" by simp
  from run_periods_split [OF assms(1) n] obtain sa sb where
    here: "period P i stress tt (ps ! n) sa = Inr (sb, rows ! n)"
    and after: "run_periods P i stress tt (drop (Suc n) ps) sb = Inr (s', drop (Suc n) rows)"
    by blast
  from assms have len: "Suc n < length rows"
    by (simp add: run_periods_length)
  have "drop (Suc n) ps = ps ! Suc n # drop (Suc (Suc n)) ps"
    using assms(2) by (simp add: Cons_nth_drop_Suc)
  with after have
    "run_periods P i stress tt (ps ! Suc n # drop (Suc (Suc n)) ps) sb = Inr (s', drop (Suc n) rows)"
    by simp
  then obtain sc r rs where
    "period P i stress tt (ps ! Suc n) sb = Inr (sc, r)" and "drop (Suc n) rows = r # rs"
    by (rule run_periods_Cons_Inr)
  moreover from len have "drop (Suc n) rows = rows ! Suc n # drop (Suc (Suc n)) rows"
    by (simp add: Cons_nth_drop_Suc)
  ultimately have "period P i stress tt (ps ! Suc n) sb = Inr (sc, rows ! Suc n)"
    by simp
  with here show ?thesis by blast
qed

lemma run_periods_notional:
  assumes "run_periods P i stress tt ps s = Inr (s', rows)"
  shows "remaining_notional s' =
           remaining_notional s
             * (1 - amortisation_rate P / real_of_int quarters_per_year)
                 ^ length (filter (\<lambda>yq. replenishment_period < fst yq) ps)"
  using assms
proof (induction ps arbitrary: s rows)
  case Nil
  then show ?case by simp
next
  case (Cons yq ps)
  from Cons.prems obtain s1 r rs where
    step: "period P i stress tt yq s = Inr (s1, r)"
    and rest: "run_periods P i stress tt ps s1 = Inr (s', rs)"
    by (rule run_periods_Cons_Inr)
  from Cons.IH [OF rest] period_notional [OF step] show ?case
    by (simp add: not_le)
qed

lemma run_periods_sequential:
  assumes "run_periods P i stress tt ps s = Inr (s', rows)"
  shows "sequential_mode s' =
           (sequential_mode s \<or> (\<exists>yq \<in> set ps. replenishment_period < fst yq \<and> fst yq = tt))"
  using assms
proof (induction ps arbitrary: s rows)
  case Nil
  then show ?case by simp
next
  case (Cons yq ps)
  from Cons.prems obtain s1 r rs where
    step: "period P i stress tt yq s = Inr (s1, r)"
    and rest: "run_periods P i stress tt ps s1 = Inr (s', rs)"
    by (rule run_periods_Cons_Inr)
  from Cons.IH [OF rest] period_regime [OF step] show ?case
    by auto
qed

lemma run_periods_succeeds:
  assumes "risk_free_rates P \<noteq> []" and "\<forall>yq \<in> set ps. 1 \<le> fst yq"
    and "remaining_notional s \<noteq> 0" and "amortisation_rate P \<noteq> 4"
  shows "\<exists>s' rows. run_periods P i stress tt ps s = Inr (s', rows)"
  using assms(2,3)
proof (induction ps arbitrary: s)
  case Nil
  then show ?case by simp
next
  case (Cons yq ps)
  from Cons.prems assms(1) obtain s1 r where
    step: "period P i stress tt yq s = Inr (s1, r)"
    using period_succeeds [of P yq s tt i stress] by auto
  from period_notional [OF step] Cons.prems(2) assms(4)
  have "remaining_notional s1 \<noteq> 0"
    by (auto simp: q4 split: if_splits)
  with Cons.IH [of s1] Cons.prems(1) obtain s' rows where
    "run_periods P i stress tt ps s1 = Inr (s', rows)" by auto
  with step show ?case by simp
qed

lemma run_periods_replenishment_succeeds:
  assumes "risk_free_rates P \<noteq> []"
    and "\<forall>yq \<in> set ps. 1 \<le> fst yq \<and> fst yq \<le> replenishment_period"
  shows "\<exists>s' rows. run_periods P i stress tt ps s = Inr (s', rows)"
  using assms(2)
proof (induction ps arbitrary: s)
  case Nil
  then show ?case by simp
next
  case (Cons yq ps)
  from Cons.prems assms(1) obtain s1 r where
    step: "period P i stress tt yq s = Inr (s1, r)"
    using period_succeeds [of P yq s tt i stress] by auto
  from Cons.IH [of s1] Cons.prems obtain s' rows where
    "run_periods P i stress tt ps s1 = Inr (s', rows)" by auto
  with step show ?case by simp
qed

subsection \<open>Scenarios and the whole analysis\<close>

lemma scenario_Inr:
  assumes "scenario P i stress = Inr rows"
  obtains tt s' where "py_getitem (trigger_timings P) i = Inr tt"
    and "run_periods P i stress tt periods (init_state P) = Inr (s', rows)"
  using assms unfolding scenario_def by (auto split: sum.splits prod.splits)

lemma scenario_length: "scenario P i stress = Inr rows \<Longrightarrow> length rows = 32"
  by (auto elim!: scenario_Inr dest: run_periods_length simp: periods_length)

lemma scenario_loop_rows:
  assumes "scenario_loop P i ss = Inr rows" and "r \<in> set rows"
  shows "\<exists>j stress rs. scenario P j stress = Inr rs \<and> r \<in> set rs"
  using assms
proof (induction ss arbitrary: i rows)
  case Nil
  then show ?case by simp
next
  case (Cons stress ss)
  from Cons.prems(1) obtain rs rs' where
    first: "scenario P i stress = Inr rs"
    and rest: "scenario_loop P (i + 1) ss = Inr rs'"
    and rows: "rows = rs @ rs'"
    by (auto split: sum.splits)
  from Cons.prems(2) rows consider "r \<in> set rs" | "r \<in> set rs'" by auto
  then show ?case
  proof cases
    case 1
    with first show ?thesis by blast
  next
    case 2
    with Cons.IH [OF rest] show ?thesis by blast
  qed
qed

lemma scenario_loop_length:
  "scenario_loop P i ss = Inr rows \<Longrightarrow> length rows = 32 * length ss"
  by (induction ss arbitrary: i rows) (auto split: sum.splits dest: scenario_length)

lemma periods_years: "\<forall>yq \<in> set periods. 1 \<le> fst yq"
  by (simp add: periods_eq)

lemma scenario_succeeds:
  assumes "risk_free_rates P \<noteq> []" and "0 \<le> i" and "i < int (length (trigger_timings P))"
    and "notional_amount P \<noteq> 0" and "amortisation_rate P \<noteq> 4"
  shows "\<exists>rows. scenario P i stress = Inr rows"
proof -
  from assms(2,3) have "py_getitem (trigger_timings P) i = Inr (trigger_timings P ! nat i)"
    by (simp add: py_getitem_def)
  moreover from assms(4) have "remaining_notional (init_state P) \<noteq> 0"
    by (simp add: init_state_def)
  from run_periods_succeeds [OF assms(1) periods_years this assms(5)]
  obtain s' rows where
    "run_periods P i stress (trigger_timings P ! nat i) periods (init_state P) = Inr (s', rows)"
    by blast
  ultimately show ?thesis
    by (simp add: scenario_def)
qed

lemma scenario_loop_succeeds:
  assumes "risk_free_rates P \<noteq> []" and "notional_amount P \<noteq> 0" and "amortisation_rate P \<noteq> 4"
    and "0 \<le> i" and "i + int (length ss) \<le> int (length (trigger_timings P))"
  shows "\<exists>rows. scenario_loop P i ss = Inr rows"
  using assms(4,5)
proof (induction ss arbitrary: i)
  case Nil
  then show ?case by simp
next
  case (Cons stress ss)
  from Cons.prems have "i < int (length (trigger_timings P))" by simp
  from scenario_succeeds [OF assms(1) Cons.prems(1) this assms(2,3)]
  obtain rs where "scenario P i stress = Inr rs" by blast
  moreover from Cons.IH [of "i + 1"] Cons.prems
  obtain rs' where "scenario_loop P (i + 1) ss = Inr rs'" by auto
  ultimately show ?case by simp
qed

lemma analysis_succeeds:
  assumes "risk_free_rates P \<noteq> []" and "notional_amount P \<noteq> 0" and "amortisation_rate P \<noteq> 4"
    and "length (stress_scenarios P) \<le> length (trigger_timings P)"
  shows "\<exists>rows. srt_stress_analysis P = Inr rows \<and> length rows = 32 * length (stress_scenarios P)"
proof -
  from scenario_loop_succeeds [OF assms(1,2,3), of 0 "stress_scenarios P"] assms(4)
  obtain rows where "scenario_loop P 0 (stress_scenarios P) = Inr rows" by auto
  then show ?thesis
    by (auto simp: srt_stress_analysis_def dest: scenario_loop_length)
qed

lemma scenario_row:
  assumes "scenario P i stress = Inr rows" and "n < length rows"
  shows "\<exists>tt sa sb pre. py_getitem (trigger_timings P) i = Inr tt
           \<and> run_periods P i stress tt (take n periods) (init_state P) = Inr (sa, pre)
           \<and> period P i stress tt (periods ! n) sa = Inr (sb, rows ! n)"
proof -
  from assms(1) obtain tt s' where
    tt: "py_getitem (trigger_timings P) i = Inr tt"
    and run: "run_periods P i stress tt periods (init_state P) = Inr (s', rows)"
    by (rule scenario_Inr)
  from run assms(2) have "n < length periods"
    by (simp add: run_periods_length)
  from run_periods_split [OF run this] obtain sa sb where
    "run_periods P i stress tt (take n periods) (init_state P) = Inr (sa, take n rows)"
    "period P i stress tt (periods ! n) sa = Inr (sb, rows ! n)"
    by blast
  with tt show ?thesis by blast
qed

lemma analysis_first_row:
  assumes "srt_stress_analysis P = Inr rows" and "stress_scenarios P = stress # rest"
  shows "\<exists>tt s1. py_getitem (trigger_timings P) 0 = Inr tt
           \<and> period P 0 stress tt (1, 1) (init_state P) = Inr (s1, hd rows) \<and> rows \<noteq> []"
proof -
  from assms have "scenario_loop P 0 (stress # rest) = Inr rows"
    by (simp add: srt_stress_analysis_def)
  then obtain rs rs' where
    first: "scenario P 0 stress = Inr rs" and rows: "rows = rs @ rs'"
    by (auto split: sum.splits)
  from first have len: "0 < length rs"
    by (simp add: scenario_length)
  from scenario_row [OF first len] obtain tt sa sb pre where
    tt: "py_getitem (trigger_timings P) 0 = Inr tt"
    and pre: "run_periods P 0 stress tt (take 0 periods) (init_state P) = Inr (sa, pre)"
    and step: "period P 0 stress tt (periods ! 0) sa = Inr (sb, rs ! 0)"
    by blast
  from pre have sa: "sa = init_state P" by simp
  have "periods ! 0 = (1, 1)"
    by (simp add: periods_eq)
  with step sa have "period P 0 stress tt (1, 1) (init_state P) = Inr (sb, rs ! 0)"
    by simp
  moreover from len rows have "hd rows = rs ! 0" and "rows \<noteq> []"
    by (auto simp: hd_conv_nth nth_append)
  ultimately show ?thesis
    using tt by auto
qed

lemma analysis_row_period:
  assumes "srt_stress_analysis P = Inr rows" and "r \<in> set rows"
  shows "\<exists>i stress tt n sa sb pre. n < length periods
           \<and> run_periods P i stress tt (take n periods) (init_state P) = Inr (sa, pre)
           \<and> period P i stress tt (periods ! n) sa = Inr (sb, r)"
proof -
  from assms have "\<exists>j stress rs. scenario P j stress = Inr rs \<and> r \<in> set rs"
    unfolding srt_stress_analysis_def by (rule scenario_loop_rows)
  then obtain j stress rs where
    sc: "scenario P j stress = Inr rs" and "r \<in> set rs"
    by blast
  then obtain n where n: "n < length rs" and r: "rs ! n = r"
    by (auto simp: in_set_conv_nth)
  from sc have "length rs = length periods"
    by (simp add: scenario_length periods_length)
  with n have "n < length periods" by simp
  moreover from scenario_row [OF sc n] r obtain tt sa sb pre where
    "run_periods P j stress tt (take n periods) (init_state P) = Inr (sa, pre)"
    "period P j stress tt (periods ! n) sa = Inr (sb, r)"
    by auto
  ultimately show ?thesis by blast
qed

lemma example_first_period:
  "period example_usage 0 1 4 (1, 1) (init_state example_usage) =
     Inr (\<lparr>remaining_notional = 500000000, tranche_exposure = 49925000,
            pnl = - 43625000, discounted_pnl = - (87243125 / 2),
            compounded_cashflows = 2756875 / 2, sequential_mode = False\<rparr>,
          \<lparr>Scenario = 1, Year = 1, Quarter = 1, Trigger_Time = 4,
            Stress_Multiplier = 1, Losses = 75000,
            Remaining_Notional = 500000000, Tranche_Exposure = 49925000,
            Quarterly_Cashflow = 1375000,
            Amortisation_Type = ''Replenishment'', PnL = - 43625000,
            Discounted_PnL = - (87243125 / 2), Principal_Payment = 0,
            Quarterly_Coupon = 1375000\<rparr>)"
  by (simp add: period_unfold example_usage_def init_state_def py_getitem_def
      quarters_per_year_def replenishment_period_def)

lemma example_usage_runs:
  "\<exists>rows. srt_stress_analysis example_usage = Inr rows \<and> length rows = 128"
  using analysis_succeeds [of example_usage] by (simp add: example_usage_def)

section \<open>The claims\<close>

text \<open>
  C10. When the trigger year of a scenario is not later than the replenishment period, no
  row of that scenario is Sequential, and every row of a year past the replenishment
  period is Pro-rata: the test \<^verbatim>\<open>year == trigger_time\<close> is only reached in those years.
\<close>

theorem trigger_in_replenishment_never_sequential:
  assumes "srt_stress_analysis P = Inr rows" and "r \<in> set rows"
    and "Trigger_Time r \<le> replenishment_period"
  shows "Amortisation_Type r \<noteq> ''Sequential''
    \<and> (replenishment_period < Year r \<longrightarrow> Amortisation_Type r = ''Pro-rata'')"
proof -
  from analysis_row_period [OF assms(1,2)] obtain i stress tt n sa sb pre where
    pre: "run_periods P i stress tt (take n periods) (init_state P) = Inr (sa, pre)"
    and step: "period P i stress tt (periods ! n) sa = Inr (sb, r)"
    by blast
  from period_row_fields [OF step] assms(3) have tt: "tt \<le> replenishment_period"
    and year: "Year r = fst (periods ! n)"
    by simp_all
  from run_periods_sequential [OF pre] tt have "\<not> sequential_mode sa"
    by (auto simp: init_state_def)
  with period_regime [OF step] tt year show ?thesis
    by auto
qed

theorem trigger_in_replenishment_never_sequential_witness:
  "\<exists>rows. srt_stress_analysis early_trigger_usage = Inr rows
     \<and> Trigger_Time (hd rows) = 2 \<and> Amortisation_Type (hd rows) \<noteq> ''Sequential''"
proof -
  have "\<exists>rows. srt_stress_analysis early_trigger_usage = Inr rows
          \<and> length rows = 32 * length (stress_scenarios early_trigger_usage)"
    by (rule analysis_succeeds) (simp_all add: early_trigger_usage_def example_usage_def)
  then obtain rows where run: "srt_stress_analysis early_trigger_usage = Inr rows"
    by blast
  have "stress_scenarios early_trigger_usage = 1 # []"
    by (simp add: early_trigger_usage_def)
  from analysis_first_row [OF run this] obtain tt s1 where
    tt: "py_getitem (trigger_timings early_trigger_usage) 0 = Inr tt"
    and step: "period early_trigger_usage 0 1 tt (1, 1) (init_state early_trigger_usage)
                 = Inr (s1, hd rows)"
    and ne: "rows \<noteq> []"
    by blast
  from tt have "tt = 2"
    by (simp add: py_getitem_def early_trigger_usage_def)
  with period_row_fields [OF step] have trig: "Trigger_Time (hd rows) = 2"
    by simp
  from ne have "hd rows \<in> set rows" by simp
  from trigger_in_replenishment_never_sequential [OF run this] trig
  have "Amortisation_Type (hd rows) \<noteq> ''Sequential''"
    by (simp add: replenishment_period_def)
  with run trig show ?thesis by blast
qed

lemma example_first_row:
  assumes "srt_stress_analysis example_usage = Inr rows"
  shows "hd rows =
           \<lparr>Scenario = 1, Year = 1, Quarter = 1, Trigger_Time = 4,
             Stress_Multiplier = 1, Losses = 75000,
             Remaining_Notional = 500000000, Tranche_Exposure = 49925000,
             Quarterly_Cashflow = 1375000,
             Amortisation_Type = ''Replenishment'', PnL = - 43625000,
             Discounted_PnL = - (87243125 / 2), Principal_Payment = 0,
             Quarterly_Coupon = 1375000\<rparr>"
proof -
  have "stress_scenarios example_usage = 1 # [3 / 2, 2, 5 / 2]"
    by (simp add: example_usage_def)
  from analysis_first_row [OF assms this] obtain tt s1 where
    tt: "py_getitem (trigger_timings example_usage) 0 = Inr tt"
    and step: "period example_usage 0 1 tt (1, 1) (init_state example_usage) = Inr (s1, hd rows)"
    by blast
  from tt have "tt = 4"
    by (simp add: py_getitem_def example_usage_def)
  with step have "period example_usage 0 1 4 (1, 1) (init_state example_usage) = Inr (s1, hd rows)"
    by simp
  then show ?thesis
    unfolding example_first_period by simp
qed

text \<open>
  Version 2.0 computes the quarterly coupon before the loss that every regime subtracts at
  the end of the loop body: in every row the coupon is the coupon rate applied to the
  recorded exposure plus the quarter's losses, that is to the exposure after the quarter's
  amortisation step (the pro-rata principal payment, or the sequential loss impact).
\<close>

lemma coupon_on_exposure_before_loss:
  assumes "srt_stress_analysis P = Inr rows" and "r \<in> set rows"
  shows "Quarterly_Coupon r =
           ((Tranche_Exposure r + Losses r) * coupon_rate P) / real_of_int quarters_per_year"
proof -
  from analysis_row_period [OF assms] obtain i stress tt n sa sb where
    step: "period P i stress tt (periods ! n) sa = Inr (sb, r)"
    by blast
  from period_coupon [OF step] period_row_fields [OF step] show ?thesis
    by simp
qed

text \<open>
  C2 on version 2.0. The claim puts the coupon on the exposure left after the quarter's
  losses and amortisation, as version 1.0 does with its annual cash flow. Version 2.0 does
  not: in the first quarter of its example usage the recorded exposure, after the losses
  of 75,000, is 49,925,000, on which the coupon would be 1,372,937.5, while the coupon
  paid is 1,375,000, computed on the 50,000,000 before the losses.
\<close>

theorem coupon_not_on_post_loss_exposure:
  "\<exists>rows. srt_stress_analysis example_usage = Inr rows
     \<and> Tranche_Exposure (hd rows) = 49925000
     \<and> (Tranche_Exposure (hd rows) * coupon_rate example_usage) / real_of_int quarters_per_year
         = 2745875 / 2
     \<and> Quarterly_Coupon (hd rows) = 1375000"
proof -
  from example_usage_runs obtain rows where
    run: "srt_stress_analysis example_usage = Inr rows"
    by blast
  from example_first_row [OF run] have
    "Tranche_Exposure (hd rows) = 49925000" and "Quarterly_Coupon (hd rows) = 1375000"
    by simp_all
  moreover have "coupon_rate example_usage = 11 / 100"
    by (simp add: example_usage_def)
  ultimately show ?thesis
    using run by (simp add: quarters_per_year_def)
qed

text \<open>
  C6. The losses of a quarter are the remaining notional at the start of the quarter times
  the annual loss rate times the stress multiplier, divided by the quarters per year. On the
  example usage the first row (year 1, quarter 1, multiplier 1, trigger year 4) is a
  Replenishment row with losses 75,000 and no principal payment.
\<close>

theorem period_losses_formula:
  "(\<forall>P i stress tt yq s s' r.
      period P i stress tt yq s = Inr (s', r) \<longrightarrow>
      Losses r =
        (remaining_notional s * annual_loss_rate P * stress) / real_of_int quarters_per_year)
   \<and> (\<exists>rows. srt_stress_analysis example_usage = Inr rows
         \<and> Year (hd rows) = 1 \<and> Quarter (hd rows) = 1
         \<and> Stress_Multiplier (hd rows) = 1 \<and> Trigger_Time (hd rows) = 4
         \<and> Amortisation_Type (hd rows) = ''Replenishment''
         \<and> Losses (hd rows) = 75000
         \<and> Principal_Payment (hd rows) = 0)"
proof (intro conjI allI impI)
  fix P i stress tt yq s s' r
  assume "period P i stress tt yq s = Inr (s', r)"
  from period_row_fields [OF this]
  show "Losses r =
          (remaining_notional s * annual_loss_rate P * stress) / real_of_int quarters_per_year"
    by simp
next
  from example_usage_runs obtain rows where
    run: "srt_stress_analysis example_usage = Inr rows"
    by blast
  from example_first_row [OF run] have
    "Year (hd rows) = 1 \<and> Quarter (hd rows) = 1
       \<and> Stress_Multiplier (hd rows) = 1 \<and> Trigger_Time (hd rows) = 4
       \<and> Amortisation_Type (hd rows) = ''Replenishment''
       \<and> Losses (hd rows) = 75000
       \<and> Principal_Payment (hd rows) = 0"
    by simp
  with run show "\<exists>rows. srt_stress_analysis example_usage = Inr rows
         \<and> Year (hd rows) = 1 \<and> Quarter (hd rows) = 1
         \<and> Stress_Multiplier (hd rows) = 1 \<and> Trigger_Time (hd rows) = 4
         \<and> Amortisation_Type (hd rows) = ''Replenishment''
         \<and> Losses (hd rows) = 75000
         \<and> Principal_Payment (hd rows) = 0"
    by blast
qed

theorem period_losses_formula_witness:
  "\<exists>s' r. period example_usage 0 1 4 (1, 1) (init_state example_usage) = Inr (s', r)
     \<and> Losses r = (500000000 * (6 / 10000) * 1) / 4"
proof -
  from example_first_period obtain s' r where
    step: "period example_usage 0 1 4 (1, 1) (init_state example_usage) = Inr (s', r)"
    by blast
  with period_losses_formula have
    "Losses r =
       (remaining_notional (init_state example_usage) * annual_loss_rate example_usage * 1)
         / real_of_int quarters_per_year"
    by blast
  then have "Losses r = (500000000 * (6 / 10000) * 1) / 4"
    by (simp add: init_state_def example_usage_def quarters_per_year_def)
  with step show ?thesis by blast
qed

text \<open>
  C4. In a quarter whose regime is Sequential no principal is paid, the remaining notional
  is multiplied by one minus a quarter of the amortisation rate, and the exposure falls by
  twice the quarter's losses: once in the sequential branch, once in the subtraction every
  regime performs. The row records the values so updated.
\<close>

theorem sequential_period:
  assumes "period P i stress tt yq s = Inr (s', r)" and "Amortisation_Type r = ''Sequential''"
  shows "Principal_Payment r = 0
    \<and> remaining_notional s' =
        remaining_notional s * (1 - amortisation_rate P / real_of_int quarters_per_year)
    \<and> tranche_exposure s' = tranche_exposure s - 2 * Losses r
    \<and> Remaining_Notional r = remaining_notional s'
    \<and> Tranche_Exposure r = tranche_exposure s'"
proof -
  from period_regime [OF assms(1)] assms(2)
  have regime: "\<not> fst yq \<le> replenishment_period" "sequential_mode s \<or> fst yq = tt"
    by (auto split: if_splits)
  with period_exposure [OF assms(1)] period_notional [OF assms(1)]
    period_row_fields [OF assms(1)]
  show ?thesis by auto
qed

theorem sequential_period_witness:
  "\<exists>s' r. period example_usage 0 1 4 (4, 1) (init_state example_usage) = Inr (s', r)
     \<and> Amortisation_Type r = ''Sequential''
     \<and> Losses r = 75000
     \<and> Principal_Payment r = 0
     \<and> remaining_notional s' = 500000000 * (1 - (33 / 100) / 4)
     \<and> tranche_exposure s' = 50000000 - 2 * 75000"
proof -
  have "\<exists>s' r. period example_usage 0 1 4 (4, 1) (init_state example_usage) = Inr (s', r)"
    by (rule period_succeeds) (simp_all add: example_usage_def)
  then obtain s' r where
    step: "period example_usage 0 1 4 (4, 1) (init_state example_usage) = Inr (s', r)"
    by blast
  from period_regime [OF step] have seq: "Amortisation_Type r = ''Sequential''"
    by (simp add: replenishment_period_def)
  from period_row_fields [OF step] have losses: "Losses r = 75000"
    by (simp add: init_state_def example_usage_def quarters_per_year_def)
  from sequential_period [OF step seq] losses
  have "Principal_Payment r = 0
    \<and> remaining_notional s' = 500000000 * (1 - (33 / 100) / 4)
    \<and> tranche_exposure s' = 50000000 - 2 * 75000"
    by (simp add: init_state_def example_usage_def quarters_per_year_def)
  with step seq losses show ?thesis by blast
qed

text \<open>
  C5. A scenario starts with no compounded cash. Each quarter adds the quarter's cash flow
  and compounds the sum at a quarter of the risk-free rate found at position
  \<open>min (year - 1) (length - 1)\<close> of the rate list; the discounted PnL of the row is the
  balance less the price paid. From the year equal to the length of the list on, the rate is
  the last one of the list.
\<close>

theorem compounding_recurrence:
  assumes "period P i stress tt (year, quarter) s = Inr (s', r)" and "1 \<le> year"
  shows "compounded_cashflows (init_state P) = 0
    \<and> compounded_cashflows s' =
        (compounded_cashflows s + Quarterly_Cashflow r)
          * (1 + risk_free_rates P ! nat (min (year - 1) (int (length (risk_free_rates P)) - 1))
                   / real_of_int quarters_per_year)
    \<and> Discounted_PnL r = compounded_cashflows s' - cln_price P
    \<and> (int (length (risk_free_rates P)) \<le> year \<longrightarrow>
         risk_free_rates P ! nat (min (year - 1) (int (length (risk_free_rates P)) - 1))
           = last (risk_free_rates P))"
proof -
  from assms have y: "1 \<le> fst (year, quarter)" by simp
  from period_compound [OF assms(1) y] have ne: "risk_free_rates P \<noteq> []"
    and cc: "compounded_cashflows s' =
        (compounded_cashflows s + Quarterly_Cashflow r)
          * (1 + risk_free_rates P ! nat (min (year - 1) (int (length (risk_free_rates P)) - 1))
                   / real_of_int quarters_per_year)"
    and dp: "discounted_pnl s' = compounded_cashflows s' - cln_price P"
    by simp_all
  from period_row_fields [OF assms(1)] dp
  have row: "Discounted_PnL r = compounded_cashflows s' - cln_price P"
    by simp
  have flat: "risk_free_rates P ! nat (min (year - 1) (int (length (risk_free_rates P)) - 1))
           = last (risk_free_rates P)" if "int (length (risk_free_rates P)) \<le> year"
  proof -
    from that have "min (year - 1) (int (length (risk_free_rates P)) - 1)
        = int (length (risk_free_rates P)) - 1"
      by simp
    moreover from ne have "nat (int (length (risk_free_rates P)) - 1) = length (risk_free_rates P) - 1"
      by simp
    ultimately show ?thesis
      using ne by (simp add: last_conv_nth)
  qed
  have "compounded_cashflows (init_state P) = 0"
    by (simp add: init_state_def)
  with cc row flat show ?thesis by blast
qed

theorem compounding_recurrence_witness:
  "\<exists>s' r. period (example_usage\<lparr>risk_free_rates := [1 / 100, 3 / 100]\<rparr>) 0 1 4 (5, 1)
             (init_state (example_usage\<lparr>risk_free_rates := [1 / 100, 3 / 100]\<rparr>)) = Inr (s', r)
     \<and> compounded_cashflows s' = (0 + Quarterly_Cashflow r) * (1 + (3 / 100) / 4)
     \<and> Discounted_PnL r = compounded_cashflows s' - 45000000"
proof -
  let ?P = "example_usage\<lparr>risk_free_rates := [1 / 100, 3 / 100]\<rparr>"
  have "\<exists>s' r. period ?P 0 1 4 (5, 1) (init_state ?P) = Inr (s', r)"
    by (rule period_succeeds) (simp_all add: example_usage_def init_state_def)
  then obtain s' r where step: "period ?P 0 1 4 (5, 1) (init_state ?P) = Inr (s', r)"
    by blast
  have "(1::int) \<le> 5" by simp
  from compounding_recurrence [OF step this]
  have "compounded_cashflows s' = (0 + Quarterly_Cashflow r) * (1 + (3 / 100) / 4)
     \<and> Discounted_PnL r = compounded_cashflows s' - 45000000"
    by (simp add: init_state_def example_usage_def quarters_per_year_def)
  with step show ?thesis by blast
qed

subsection \<open>Runs that raise\<close>

lemma periods_split:
  "periods =
     [(1, 1), (1, 2), (1, 3), (1, 4), (2, 1), (2, 2), (2, 3), (2, 4),
      (3, 1), (3, 2), (3, 3), (3, 4)]
     @ (4, 1) # [(4, 2), (4, 3), (4, 4),
      (5, 1), (5, 2), (5, 3), (5, 4), (6, 1), (6, 2), (6, 3), (6, 4),
      (7, 1), (7, 2), (7, 3), (7, 4), (8, 1), (8, 2), (8, 3), (8, 4)]"
  by (simp add: periods_eq)

lemma run_periods_raises:
  assumes "run_periods P i stress tt ps s = Inr (s1, rs)"
    and "period P i stress tt yq s1 = Inl e"
  shows "run_periods P i stress tt (ps @ yq # rest) s = Inl e"
  using assms by (simp add: run_periods_append)

lemma scenario_zero_division:
  assumes "notional_amount P = 0" and "risk_free_rates P \<noteq> []"
    and "py_getitem (trigger_timings P) i = Inr tt" and "tt \<noteq> 4"
  shows "scenario P i stress = Inl ZeroDivisionError"
proof -
  let ?A = "[(1, 1), (1, 2), (1, 3), (1, 4), (2, 1), (2, 2), (2, 3), (2, 4),
      (3, 1), (3, 2), (3, 3), (3, 4)] :: (int \<times> int) list"
  have "\<exists>s1 rs. run_periods P i stress tt ?A (init_state P) = Inr (s1, rs)"
    by (rule run_periods_replenishment_succeeds [OF assms(2)])
      (simp add: replenishment_period_def)
  then obtain s1 rs where pre: "run_periods P i stress tt ?A (init_state P) = Inr (s1, rs)"
    by blast
  from run_periods_notional [OF pre] assms(1) have "remaining_notional s1 = 0"
    by (simp add: init_state_def)
  moreover from run_periods_sequential [OF pre] have "\<not> sequential_mode s1"
    by (simp add: init_state_def replenishment_period_def)
  ultimately have "period P i stress tt (4, 1) s1 = Inl ZeroDivisionError"
    using assms(4) by (intro period_zero_division) (simp_all add: replenishment_period_def)
  from run_periods_raises [OF pre this]
  have "run_periods P i stress tt periods (init_state P) = Inl ZeroDivisionError"
    unfolding periods_split .
  with assms(3) show ?thesis
    by (simp add: scenario_def)
qed

lemma empty_rates_index_error:
  assumes "risk_free_rates P = []" and "stress_scenarios P = stress # rest"
    and "trigger_timings P \<noteq> []"
  shows "srt_stress_analysis P = Inl IndexError"
proof -
  from assms(3) have tt: "py_getitem (trigger_timings P) 0 = Inr (trigger_timings P ! 0)"
    by (simp add: py_getitem_def)
  have "period P 0 stress (trigger_timings P ! 0) (1, 1) (init_state P) = Inl IndexError"
    by (rule period_index_error [OF assms(1)]) (simp_all add: replenishment_period_def)
  then have "run_periods P 0 stress (trigger_timings P ! 0) periods (init_state P)
      = Inl IndexError"
    by (simp add: periods_eq)
  with tt have "scenario P 0 stress = Inl IndexError"
    by (simp add: scenario_def)
  with assms(2) show ?thesis
    by (simp add: srt_stress_analysis_def)
qed

text \<open>
  C3, as the code has it. In a Pro-rata quarter that starts with a remaining notional of
  zero, the division \<^verbatim>\<open>tranche_exposure / remaining_notional\<close> raises
  \<^verbatim>\<open>ZeroDivisionError\<close>: the quarter yields no principal payment and the run stops there.
\<close>

theorem pro_rata_zero_notional_raises:
  assumes "replenishment_period < fst yq" and "fst yq \<noteq> tt" and "\<not> sequential_mode s"
    and "remaining_notional s = 0"
  shows "period P i stress tt yq s = Inl ZeroDivisionError
    \<and> run_periods P i stress tt (yq # rest) s = Inl ZeroDivisionError"
  using period_zero_division [OF assms] by simp

theorem pro_rata_zero_notional_raises_witness:
  "period zero_notional_usage 0 1 5 (4, 1) (init_state zero_notional_usage)
     = Inl ZeroDivisionError
   \<and> run_periods zero_notional_usage 0 1 5 [(4, 1), (4, 2)] (init_state zero_notional_usage)
     = Inl ZeroDivisionError"
  using pro_rata_zero_notional_raises
    [of "(4, 1)" 5 "init_state zero_notional_usage" zero_notional_usage 0 1 "[(4, 2)]"]
  by (simp add: replenishment_period_def init_state_def zero_notional_usage_def)

text \<open>
  C3 as stated fails on \<open>zero_notional_usage\<close>: the remaining notional is zero from the
  start, year 4 is a Pro-rata year, and the analysis ends in \<^verbatim>\<open>ZeroDivisionError\<close> instead
  of a row with a principal payment of zero.
\<close>

theorem zero_notional_run_raises:
  "srt_stress_analysis zero_notional_usage = Inl ZeroDivisionError"
proof -
  have "scenario zero_notional_usage 0 1 = Inl ZeroDivisionError"
    by (rule scenario_zero_division [where tt = 5])
      (simp_all add: zero_notional_usage_def example_usage_def py_getitem_def)
  then show ?thesis
    by (simp add: srt_stress_analysis_def zero_notional_usage_def)
qed

lemma empty_rates_scenario:
  assumes "risk_free_rates P = []"
  shows "\<exists>e. scenario P i stress = Inl e"
proof (cases "py_getitem (trigger_timings P) i")
  case (Inl e)
  then show ?thesis
    by (simp add: scenario_def)
next
  case (Inr tt)
  have "period P i stress tt (1, 1) (init_state P) = Inl IndexError"
    by (rule period_index_error [OF assms]) (simp_all add: replenishment_period_def)
  then have "run_periods P i stress tt periods (init_state P) = Inl IndexError"
    by (simp add: periods_eq)
  with Inr show ?thesis
    by (simp add: scenario_def)
qed

text \<open>
  C8, as the code has it. Nothing is validated. The maturity, the replenishment period and
  the quarters per year are the constants 8, 3 and 4, not inputs. With an empty rate list
  and at least one scenario the analysis never returns rows: the first quarter already
  stops at the list access. A non-positive stress multiplier and a trigger year outside
  the maturity are not reported: on \<open>unvalidated_usage\<close>, with the multiplier -1 and the
  trigger year 9, the analysis returns its 32 rows.
\<close>

theorem no_configuration_validation:
  "maturity = 8 \<and> replenishment_period = 3 \<and> quarters_per_year = 4
   \<and> (risk_free_rates P = [] \<and> stress_scenarios P \<noteq> []
      \<longrightarrow> (\<forall>rows. srt_stress_analysis P \<noteq> Inr rows))
   \<and> (\<exists>rows. srt_stress_analysis unvalidated_usage = Inr rows \<and> length rows = 32)"
proof (intro conjI impI allI)
  show "maturity = 8" "replenishment_period = 3" "quarters_per_year = 4"
    by (simp_all add: maturity_def replenishment_period_def quarters_per_year_def)
next
  fix rows
  assume a: "risk_free_rates P = [] \<and> stress_scenarios P \<noteq> []"
  then obtain stress rest where ss: "stress_scenarios P = stress # rest"
    by (cases "stress_scenarios P") auto
  from a empty_rates_scenario [of P 0 stress] obtain e where "scenario P 0 stress = Inl e"
    by blast
  with ss show "srt_stress_analysis P \<noteq> Inr rows"
    by (simp add: srt_stress_analysis_def)
next
  have "\<exists>rows. srt_stress_analysis unvalidated_usage = Inr rows
          \<and> length rows = 32 * length (stress_scenarios unvalidated_usage)"
    by (rule analysis_succeeds) (simp_all add: unvalidated_usage_def example_usage_def)
  then show "\<exists>rows. srt_stress_analysis unvalidated_usage = Inr rows \<and> length rows = 32"
    by (simp add: unvalidated_usage_def)
qed

theorem no_configuration_validation_witness:
  "srt_stress_analysis (example_usage\<lparr>risk_free_rates := []\<rparr>) \<noteq> Inr []"
proof -
  note never = no_configuration_validation
    [of "example_usage\<lparr>risk_free_rates := []\<rparr>",
      THEN conjunct2, THEN conjunct2, THEN conjunct2, THEN conjunct1]
  have "risk_free_rates (example_usage\<lparr>risk_free_rates := []\<rparr>) = []
      \<and> stress_scenarios (example_usage\<lparr>risk_free_rates := []\<rparr>) \<noteq> []"
    by (simp add: example_usage_def)
  with never show ?thesis
    by blast
qed

text \<open>
  C8 as stated fails on \<open>unvalidated_usage\<close>: with the multiplier -1 and the trigger year 9
  the analysis reports nothing and returns its 32 rows, which carry both values.
\<close>

theorem unvalidated_inputs_compute_results:
  "\<exists>rows. srt_stress_analysis unvalidated_usage = Inr rows \<and> length rows = 32
     \<and> Stress_Multiplier (hd rows) = - 1 \<and> Trigger_Time (hd rows) = 9
     \<and> Losses (hd rows) = - 75000"
proof -
  have "\<exists>rows. srt_stress_analysis unvalidated_usage = Inr rows
          \<and> length rows = 32 * length (stress_scenarios unvalidated_usage)"
    by (rule analysis_succeeds) (simp_all add: unvalidated_usage_def example_usage_def)
  then obtain rows where run: "srt_stress_analysis unvalidated_usage = Inr rows"
    and len: "length rows = 32"
    by (auto simp: unvalidated_usage_def)
  have "stress_scenarios unvalidated_usage = - 1 # []"
    by (simp add: unvalidated_usage_def)
  from analysis_first_row [OF run this] obtain tt s1 where
    tt: "py_getitem (trigger_timings unvalidated_usage) 0 = Inr tt"
    and step: "period unvalidated_usage 0 (- 1) tt (1, 1) (init_state unvalidated_usage)
                 = Inr (s1, hd rows)"
    by blast
  from tt have "tt = 9"
    by (simp add: py_getitem_def unvalidated_usage_def)
  with period_row_fields [OF step] have
    "Stress_Multiplier (hd rows) = - 1 \<and> Trigger_Time (hd rows) = 9
       \<and> Losses (hd rows) = - 75000"
    by (simp add: init_state_def unvalidated_usage_def example_usage_def quarters_per_year_def)
  with run len show ?thesis by blast
qed

subsection \<open>The remaining notional along a scenario\<close>

lemma periods_map:
  "periods = map (\<lambda>k. (1 + int (k div 4), 1 + int (k mod 4))) [0..<32]"
  by code_simp

lemma count_from_twelve: "length (filter (\<lambda>k::nat. 12 \<le> k) [0..<m]) = m - 12"
  by (induction m) auto

lemma periods_amortising_count:
  assumes "n < 32"
  shows "length (filter (\<lambda>yq. replenishment_period < fst yq) (take (Suc n) periods))
           = Suc n - 12"
proof -
  from assms have "take (Suc n) [0..<32] = [0..<Suc n]"
    by (simp add: take_upt)
  then have "take (Suc n) periods
      = map (\<lambda>k. (1 + int (k div 4), 1 + int (k mod 4))) [0..<Suc n]"
    by (simp only: periods_map take_map)
  moreover have "(replenishment_period < fst (1 + int (k div 4), 1 + int (k mod 4))) = (12 \<le> k)"
    for k :: nat
    by (simp add: replenishment_period_def) presburger
  ultimately show ?thesis
    using count_from_twelve [of "Suc n"]
    by (simp only: filter_map length_map comp_def)
qed

lemma run_periods_row_notional:
  assumes "run_periods P i stress tt ps s = Inr (s', rows)" and "n < length ps"
  shows "Remaining_Notional (rows ! n) =
           remaining_notional s
             * (1 - amortisation_rate P / real_of_int quarters_per_year)
                 ^ length (filter (\<lambda>yq. replenishment_period < fst yq) (take (Suc n) ps))"
proof -
  from run_periods_split [OF assms] obtain sa sb where
    pre: "run_periods P i stress tt (take n ps) s = Inr (sa, take n rows)"
    and step: "period P i stress tt (ps ! n) sa = Inr (sb, rows ! n)"
    by blast
  from step have "run_periods P i stress tt [ps ! n] sa = Inr (sb, [rows ! n])"
    by simp
  with pre have "run_periods P i stress tt (take n ps @ [ps ! n]) s
      = Inr (sb, take n rows @ [rows ! n])"
    by (simp add: run_periods_append)
  moreover from assms(2) have "take n ps @ [ps ! n] = take (Suc n) ps"
    by (simp add: take_Suc_conv_app_nth)
  ultimately have "run_periods P i stress tt (take (Suc n) ps) s
      = Inr (sb, take n rows @ [rows ! n])"
    by simp
  from run_periods_notional [OF this] period_row_fields [OF step] show ?thesis
    by simp
qed

text \<open>
  C9. The remaining notional never depends on the losses. Row \<open>n\<close> of a scenario (counted
  from 0) records the notional amount times \<open>(1 - amortisation_rate / 4)\<close> to the power of
  the number of quarters past the replenishment period up to and including that row,
  \<open>n + 1 - 12\<close>; in the twelve replenishment quarters this is the notional amount itself.
  Neither the stress multiplier nor the trigger year occurs in the formula.
\<close>

theorem remaining_notional_closed_form:
  assumes "scenario P i stress = Inr rows" and "n < length rows"
  shows "Remaining_Notional (rows ! n) =
           notional_amount P
             * (1 - amortisation_rate P / real_of_int quarters_per_year)
                 ^ (Suc n - nat (replenishment_period * quarters_per_year))
    \<and> (Year (rows ! n) \<le> replenishment_period \<longrightarrow>
          Remaining_Notional (rows ! n) = notional_amount P)
    \<and> length rows = nat (maturity * quarters_per_year)"
proof -
  from assms(1) obtain tt s' where
    run: "run_periods P i stress tt periods (init_state P) = Inr (s', rows)"
    by (rule scenario_Inr)
  from assms(1) have len: "length rows = 32"
    by (rule scenario_length)
  with assms(2) have n: "n < 32" and n': "n < length periods"
    by (simp_all add: periods_length)
  have twelve: "nat (replenishment_period * quarters_per_year) = 12"
    by (simp add: replenishment_period_def quarters_per_year_def)
  from run_periods_row_notional [OF run n'] periods_amortising_count [OF n]
  have closed: "Remaining_Notional (rows ! n) =
           notional_amount P
             * (1 - amortisation_rate P / real_of_int quarters_per_year) ^ (Suc n - 12)"
    by (simp add: init_state_def)
  have "Remaining_Notional (rows ! n) = notional_amount P"
    if "Year (rows ! n) \<le> replenishment_period"
  proof -
    from run_periods_split [OF run n'] obtain sa sb where
      "period P i stress tt (periods ! n) sa = Inr (sb, rows ! n)"
      by blast
    from period_row_fields [OF this] have "Year (rows ! n) = fst (periods ! n)"
      by simp
    also from n have "\<dots> = 1 + int (n div 4)"
      by (simp add: periods_map)
    finally have "n < 12"
      using that by (simp add: replenishment_period_def)
    with closed show ?thesis by simp
  qed
  with closed twelve len show ?thesis
    by (simp add: maturity_def quarters_per_year_def)
qed

theorem remaining_notional_closed_form_witness:
  "\<exists>rows. scenario example_usage 0 1 = Inr rows
     \<and> Remaining_Notional (rows ! 13) = 500000000 * (1 - (33 / 100) / 4) ^ 2
     \<and> length rows = 32"
proof -
  have "\<exists>rows. scenario example_usage 0 1 = Inr rows"
    by (rule scenario_succeeds) (simp_all add: example_usage_def)
  then obtain rows where run: "scenario example_usage 0 1 = Inr rows"
    by blast
  then have "13 < length rows"
    by (simp add: scenario_length)
  from remaining_notional_closed_form [OF run this]
  have "Remaining_Notional (rows ! 13) = 500000000 * (1 - (33 / 100) / 4) ^ 2
     \<and> length rows = 32"
    by (simp add: example_usage_def quarters_per_year_def replenishment_period_def
        maturity_def numeral_2_eq_2)
  with run show ?thesis by blast
qed

subsection \<open>Monotonicity\<close>

lemma period_monotone:
  assumes "period P i stress tt yq s = Inr (s', r)"
    and "0 \<le> Losses r" and "0 \<le> amortisation_rate P"
    and "0 \<le> remaining_notional s" and "0 \<le> tranche_exposure s"
  shows "remaining_notional s' \<le> remaining_notional s
    \<and> tranche_exposure s' \<le> tranche_exposure s"
proof -
  have q: "real_of_int quarters_per_year = 4" by (rule q4)
  from assms(3,4) have amort: "0 \<le> remaining_notional s * amortisation_rate P / 4"
    by simp
  from assms(4,5) have share: "0 \<le> tranche_exposure s / remaining_notional s"
    by simp
  from share amort
  have pp: "0 \<le> tranche_exposure s / remaining_notional s
                 * (remaining_notional s * amortisation_rate P / 4)"
    by (rule mult_nonneg_nonneg)
  have "remaining_notional s * (1 - amortisation_rate P / 4)
      = remaining_notional s - remaining_notional s * amortisation_rate P / 4"
    by (simp add: algebra_simps)
  with amort have "remaining_notional s * (1 - amortisation_rate P / 4) \<le> remaining_notional s"
    by simp
  with period_notional [OF assms(1)] have rn: "remaining_notional s' \<le> remaining_notional s"
    by (simp add: q split: if_splits)
  from period_exposure [OF assms(1)] pp assms(2)
  have "tranche_exposure s' \<le> tranche_exposure s"
    by (auto simp: q split: if_splits)
  with rn show ?thesis by simp
qed

text \<open>
  C7. Along a scenario, from one row to the next, the remaining notional and the tranche
  exposure do not increase, provided the amortisation rate and the losses of the later
  quarter are not negative and the earlier row's remaining notional and exposure are not
  negative (the degenerate case set aside by the claim).
\<close>

theorem notional_and_exposure_non_increasing:
  assumes "scenario P i stress = Inr rows" and "Suc n < length rows"
    and "0 \<le> amortisation_rate P" and "0 \<le> Losses (rows ! Suc n)"
    and "0 \<le> Remaining_Notional (rows ! n)" and "0 \<le> Tranche_Exposure (rows ! n)"
  shows "Remaining_Notional (rows ! Suc n) \<le> Remaining_Notional (rows ! n)
    \<and> Tranche_Exposure (rows ! Suc n) \<le> Tranche_Exposure (rows ! n)"
proof -
  from assms(1) obtain tt s' where
    run: "run_periods P i stress tt periods (init_state P) = Inr (s', rows)"
    by (rule scenario_Inr)
  from run assms(2) have "Suc n < length periods"
    by (simp add: run_periods_length)
  from run_periods_consecutive [OF run this] obtain sa sb sc where
    first: "period P i stress tt (periods ! n) sa = Inr (sb, rows ! n)"
    and second: "period P i stress tt (periods ! Suc n) sb = Inr (sc, rows ! Suc n)"
    by blast
  from period_row_fields [OF first] have
    before: "Remaining_Notional (rows ! n) = remaining_notional sb"
      "Tranche_Exposure (rows ! n) = tranche_exposure sb"
    by simp_all
  from period_row_fields [OF second] have
    after: "Remaining_Notional (rows ! Suc n) = remaining_notional sc"
      "Tranche_Exposure (rows ! Suc n) = tranche_exposure sc"
    by simp_all
  from assms(5,6) before have "0 \<le> remaining_notional sb" "0 \<le> tranche_exposure sb"
    by simp_all
  from period_monotone [OF second assms(4) assms(3) this] before after show ?thesis
    by simp
qed

theorem notional_and_exposure_non_increasing_witness:
  "\<exists>rows. scenario example_usage 0 1 = Inr rows
     \<and> 0 \<le> Losses (rows ! Suc 0)
     \<and> 0 \<le> Remaining_Notional (rows ! 0) \<and> 0 \<le> Tranche_Exposure (rows ! 0)
     \<and> Remaining_Notional (rows ! Suc 0) \<le> Remaining_Notional (rows ! 0)
     \<and> Tranche_Exposure (rows ! Suc 0) \<le> Tranche_Exposure (rows ! 0)"
proof -
  have "\<exists>rows. scenario example_usage 0 1 = Inr rows"
    by (rule scenario_succeeds) (simp_all add: example_usage_def)
  then obtain rows where run: "scenario example_usage 0 1 = Inr rows"
    by blast
  then have len: "0 < length rows" "Suc 0 < length rows"
    by (simp_all add: scenario_length)
  have trigger: "tt = 4" if "py_getitem (trigger_timings example_usage) 0 = Inr tt" for tt
    using that by (simp add: py_getitem_def example_usage_def)
  from scenario_row [OF run len(1)] obtain tt sa sb pre where
    "py_getitem (trigger_timings example_usage) 0 = Inr tt"
    and "run_periods example_usage 0 1 tt (take 0 periods) (init_state example_usage)
           = Inr (sa, pre)"
    and "period example_usage 0 1 tt (periods ! 0) sa = Inr (sb, rows ! 0)"
    by blast
  with trigger have
    step0: "period example_usage 0 1 4 (1, 1) (init_state example_usage) = Inr (sb, rows ! 0)"
    by (simp add: periods_eq)
  then have "remaining_notional sb = 500000000 \<and> tranche_exposure sb = 49925000"
    unfolding example_first_period by auto
  with period_row_fields [OF step0]
  have first: "0 \<le> Remaining_Notional (rows ! 0)" "0 \<le> Tranche_Exposure (rows ! 0)"
    by simp_all
  from scenario_row [OF run len(2)] obtain tt sa sb pre where
    "py_getitem (trigger_timings example_usage) 0 = Inr tt"
    and "run_periods example_usage 0 1 tt (take (Suc 0) periods) (init_state example_usage)
           = Inr (sa, pre)"
    and step: "period example_usage 0 1 tt (periods ! Suc 0) sa = Inr (sb, rows ! Suc 0)"
    by blast
  with trigger have
    "run_periods example_usage 0 1 4 [(1, 1)] (init_state example_usage) = Inr (sa, pre)"
    by (simp add: periods_eq)
  then have "remaining_notional sa = 500000000"
    by (auto simp: example_first_period)
  with period_row_fields [OF step] have second: "0 \<le> Losses (rows ! Suc 0)"
    by (simp add: example_usage_def quarters_per_year_def)
  have "0 \<le> amortisation_rate example_usage"
    by (simp add: example_usage_def)
  from notional_and_exposure_non_increasing [OF run len(2) this second first]
    run first second show ?thesis
    by blast
qed

subsection \<open>The regime along a scenario\<close>

lemma run_periods_row_regime:
  assumes "run_periods P i stress tt ps s = Inr (s', rows)" and "n < length ps"
  shows "Amortisation_Type (rows ! n) =
           (if fst (ps ! n) \<le> replenishment_period then ''Replenishment''
            else if sequential_mode s
                    \<or> (\<exists>yq \<in> set (take (Suc n) ps). replenishment_period < fst yq \<and> fst yq = tt)
                 then ''Sequential'' else ''Pro-rata'')"
proof -
  from run_periods_split [OF assms] obtain sa sb where
    pre: "run_periods P i stress tt (take n ps) s = Inr (sa, take n rows)"
    and step: "period P i stress tt (ps ! n) sa = Inr (sb, rows ! n)"
    by blast
  from assms(2) have "set (take (Suc n) ps) = insert (ps ! n) (set (take n ps))"
    by (simp add: take_Suc_conv_app_nth)
  with run_periods_sequential [OF pre] period_regime [OF step] show ?thesis
    by auto
qed

lemma periods_years_ascend:
  assumes "m \<le> n" and "n < 32"
  shows "fst (periods ! m) \<le> fst (periods ! n)"
proof -
  from assms have "m div 4 \<le> n div 4"
    by (simp add: div_le_mono)
  with assms show ?thesis
    by (simp add: periods_map)
qed

text \<open>Version 2.0 keeps the sequential regime once a row of a scenario has it.\<close>

lemma sequential_sticky:
  assumes "scenario P i stress = Inr rows" and "m \<le> n" and "n < length rows"
    and "Amortisation_Type (rows ! m) = ''Sequential''"
  shows "Amortisation_Type (rows ! n) = ''Sequential''"
proof -
  from assms(1) obtain tt s' where
    run: "run_periods P i stress tt periods (init_state P) = Inr (s', rows)"
    by (rule scenario_Inr)
  from assms(1) have len: "length rows = 32"
    by (rule scenario_length)
  with assms(2,3) have n: "n < length periods" and m: "m < length periods" and n32: "n < 32"
    by (simp_all add: periods_length)
  let ?hit = "\<lambda>k. \<exists>yq \<in> set (take (Suc k) periods). replenishment_period < fst yq \<and> fst yq = tt"
  from run_periods_row_regime [OF run m] assms(4)
  have year_m: "replenishment_period < fst (periods ! m)" and hit_m: "?hit m"
    by (auto simp: init_state_def split: if_splits)
  from periods_years_ascend [OF assms(2) n32] year_m
  have year_n: "replenishment_period < fst (periods ! n)"
    by simp
  from assms(2) have "set (take (Suc m) periods) \<subseteq> set (take (Suc n) periods)"
    by (simp add: set_take_subset_set_take)
  with hit_m have "?hit n" by blast
  with run_periods_row_regime [OF run n] year_n show ?thesis
    by simp
qed

subsection \<open>Version 1.0\<close>

text \<open>Version 1.0 pays its annual cash flow on the exposure left after the year's losses.\<close>

lemma v1_cashflow_after_losses:
  assumes "v1_year P i stress tt year s = Inr (s', r)"
  shows "v1_Annual_Cashflow r = v1_Tranche_Exposure r * coupon_rate P"
  using assms unfolding v1_year_def Let_def
  by (auto split: sum.splits if_splits)

lemma v1_example_evaluated:
  "(case v1_srt_stress_analysis v1_example_usage of
      Inl e \<Rightarrow> False
    | Inr rows \<Rightarrow>
        length rows = 32
        \<and> v1_Scenario (rows ! 3) = 1 \<and> v1_Year (rows ! 3) = 4
        \<and> v1_Amortisation_Type (rows ! 3) = ''Sequential''
        \<and> v1_Scenario (rows ! 4) = 1 \<and> v1_Year (rows ! 4) = 5
        \<and> v1_Amortisation_Type (rows ! 4) = ''Pro-rata'')"
  by code_simp

text \<open>
  C1 on version 1.0. On its own example usage the first scenario (trigger year 4) is
  Sequential in year 4 and Pro-rata again in year 5: the regime is derived from
  \<^verbatim>\<open>year == trigger_time\<close> in every year, so it reverts, against the claim and against
  the script's own note that it should not switch back.
\<close>

theorem v1_regime_reverts:
  "\<exists>rows. v1_srt_stress_analysis v1_example_usage = Inr rows
     \<and> length rows = 32
     \<and> v1_Scenario (rows ! 3) = 1 \<and> v1_Year (rows ! 3) = 4
     \<and> v1_Amortisation_Type (rows ! 3) = ''Sequential''
     \<and> v1_Scenario (rows ! 4) = 1 \<and> v1_Year (rows ! 4) = 5
     \<and> v1_Amortisation_Type (rows ! 4) = ''Pro-rata''"
  using v1_example_evaluated
  by (cases "v1_srt_stress_analysis v1_example_usage") simp_all

end
